theory Spec2Isabelle
  imports Complex_Main "HOL-Library.Sublist" "HOL-Library.AList" "HOL-Library.Multiset"
begin

section \<open>Values, clock and runtime\<close>

text \<open>
  The backend keeps its collections as JSON arrays of objects. The shape of each object is
  the one of the specification's data model, so an object is a record here; a field is an
  \<open>option\<close> where the handlers themselves test for its absence or where creation does
  not require it.

  A JavaScript number is modelled as an exact rational: rounding, NaN and the infinities
  are outside the model. A string is a list of 8-bit characters.
\<close>

type_synonym number = rat

text \<open>
  What a handler takes from the JavaScript runtime instead of from the repository: the
  clock (\<open>new Date().toISOString()\<close> and \<open>new Date()\<close> in milliseconds, read once per
  request), the value of \<open>new Date(s)\<close> for a timestamp string, and the conversion of a
  number inside a template literal.
\<close>

record runtime =
  now_iso :: string
  now_ms :: number
  date_ms :: "string \<Rightarrow> number"
  num_str :: "number \<Rightarrow> string"

text \<open>A JSON value of a request body, as far as the handlers can tell values apart.\<close>

datatype 'a jsvalue =
    JNull
  | JBool bool
  | JNum number
  | JStr string
  | JObject
  | JArray "'a list"

text \<open>A property that is absent reads as \<open>undefined\<close>, which is \<open>None\<close>.\<close>

fun truthy :: "'a jsvalue option \<Rightarrow> bool" where
  "truthy None = False"
| "truthy (Some JNull) = False"
| "truthy (Some (JBool b)) = b"
| "truthy (Some (JNum n)) = (n \<noteq> 0)"
| "truthy (Some (JStr s)) = (s \<noteq> [])"
| "truthy (Some JObject) = True"
| "truthy (Some (JArray xs)) = True"

fun isArray :: "'a jsvalue option \<Rightarrow> bool" where
  "isArray (Some (JArray xs)) = True"
| "isArray v = False"

fun elements :: "'a jsvalue option \<Rightarrow> 'a list" where
  "elements (Some (JArray xs)) = xs"
| "elements v = []"

text \<open>Truthiness of an optional string and of an optional number.\<close>

fun truthy_str :: "string option \<Rightarrow> bool" where
  "truthy_str None = False"
| "truthy_str (Some s) = (s \<noteq> [])"

fun truthy_num :: "number option \<Rightarrow> bool" where
  "truthy_num None = False"
| "truthy_num (Some n) = (n \<noteq> 0)"

text \<open>\<open>a || b\<close> on an optional string with a string default, and on an optional number.\<close>

definition str_or :: "string option \<Rightarrow> string \<Rightarrow> string" where
  "str_or a b = (case a of Some s \<Rightarrow> (if s \<noteq> [] then s else b) | None \<Rightarrow> b)"


definition num_or_null :: "number option \<Rightarrow> number option" where
  "num_or_null a = (case a of Some n \<Rightarrow> (if n \<noteq> 0 then Some n else None) | None \<Rightarrow> None)"

text \<open>\<open>Array.prototype.findIndex\<close>, with \<open>-1\<close> as \<open>None\<close>.\<close>

fun findIndex :: "('a \<Rightarrow> bool) \<Rightarrow> 'a list \<Rightarrow> nat option" where
  "findIndex P [] = None"
| "findIndex P (x # xs) =
     (if P x then Some 0 else (case findIndex P xs of None \<Rightarrow> None | Some i \<Rightarrow> Some (Suc i)))"

text \<open>
  The identifier of a new element of a collection:
  \<open>xs.length > 0 ? Math.max(...xs.map(x => x.id)) + 1 : 1\<close>.
\<close>

fun next_id :: "number list \<Rightarrow> number" where
  "next_id [] = 1"
| "next_id (x # xs) = foldl max x xs + 1"

section \<open>Data model\<close>

record tenant =
  t_id :: number
  t_name :: string
  t_plan :: string
  t_subscriptionStatus :: string
  t_trialEnds :: string
  t_isActive :: bool

text \<open>The decoded claims of the session token, \<open>req.user\<close>.\<close>

record user_claims =
  u_id :: number
  u_email :: string
  u_role :: string
  u_tenantId :: number

record product =
  p_id :: number
  p_tenantId :: number
  p_barcode :: "string option"
  p_name :: string
  p_price :: number
  p_cost :: "number option"
  p_stock :: number
  p_category :: "string option"
  p_lowStockAlert :: "number option"
  p_createdAt :: "string option"
  p_updatedAt :: "string option"

record line_item =
  i_productId :: number
  i_productName :: "string option"
  i_price :: number
  i_quantity :: number

record sale =
  s_id :: number
  s_tenantId :: number
  s_userId :: number
  s_items :: "line_item list"
  s_total :: number
  s_paymentMethod :: "string option"
  s_cashReceived :: "number option"
  s_cashChange :: "number option"
  s_status :: string
  s_notes :: string
  s_createdAt :: string

text \<open>The JSON documents on disk that the handlers read and rewrite.\<close>

record store =
  products :: "product list"
  sales :: "sale list"
  tenants :: "tenant list"

text \<open>The failures a handler answers with, and their HTTP status.\<close>

datatype error =
    ItemsRequired
  | PaymentMethodRequired
  | ProductFieldsRequired
  | ProductNotFound
  | AccountInactive
  | SubscriptionExpired
  | InternalError

fun status :: "error \<Rightarrow> nat" where
  "status ItemsRequired = 400"
| "status PaymentMethodRequired = 400"
| "status ProductFieldsRequired = 400"
| "status ProductNotFound = 404"
| "status AccountInactive = 403"
| "status SubscriptionExpired = 403"
| "status InternalError = 500"

section \<open>Tenant gate\<close>

text \<open>
  \<open>validateTenant\<close>: the middleware that runs after \<open>authenticateToken\<close> on every
  tenant-scoped route. \<open>Inr t\<close> is \<open>req.tenant = t; next()\<close>.
\<close>

definition validateTenant :: "runtime \<Rightarrow> tenant list \<Rightarrow> user_claims \<Rightarrow> error + tenant" where
  "validateTenant rt ts user =
     (case find (\<lambda>t. t_id t = u_tenantId user) ts of
        None \<Rightarrow> Inl AccountInactive
      | Some t \<Rightarrow>
          if \<not> t_isActive t then Inl AccountInactive
          else if t_subscriptionStatus t \<noteq> ''active'' \<and> date_ms rt (t_trialEnds t) < now_ms rt
          then Inl SubscriptionExpired
          else Inr t)"

text \<open>A tenant-scoped route: the gate, then the handler; a refused request changes nothing.\<close>

definition tenant_scoped ::
  "runtime \<Rightarrow> user_claims \<Rightarrow> store \<Rightarrow> (store \<Rightarrow> (error + 'a) \<times> store) \<Rightarrow> (error + 'a) \<times> store" where
  "tenant_scoped rt user st handler =
     (case validateTenant rt (tenants st) user of
        Inl e \<Rightarrow> (Inl e, st)
      | Inr t \<Rightarrow> handler st)"

section \<open>Sale processor\<close>

record sale_request =
  r_items :: "line_item jsvalue option"
  r_paymentMethod :: "string option"
  r_cashReceived :: "number option"
  r_cashChange :: "number option"
  r_notes :: "string option"

text \<open>The body of the loop over the line items that updates the stock.\<close>

definition adjust_stock :: "runtime \<Rightarrow> number \<Rightarrow> product list \<Rightarrow> line_item \<Rightarrow> product list" where
  "adjust_stock rt tid ps item =
     (case findIndex (\<lambda>p. p_id p = i_productId item \<and> p_tenantId p = tid) ps of
        None \<Rightarrow> ps
      | Some i \<Rightarrow>
          (let p1 = (ps ! i)\<lparr>p_stock := p_stock (ps ! i) - i_quantity item\<rparr>;
               p2 = p1\<lparr>p_updatedAt := Some (now_iso rt)\<rparr>;
               p3 = (if p_stock p2 < 0 then p2\<lparr>p_stock := 0\<rparr> else p2)
           in ps[i := p3]))"

definition sale_total :: "line_item list \<Rightarrow> number" where
  "sale_total items = foldl (\<lambda>sum item. sum + i_price item * i_quantity item) 0 items"

definition post_sales ::
  "runtime \<Rightarrow> user_claims \<Rightarrow> sale_request \<Rightarrow> store \<Rightarrow> (error + sale) \<times> store" where
  "post_sales rt user saleData st =
     (if \<not> truthy (r_items saleData) \<or> \<not> isArray (r_items saleData)
         \<or> length (elements (r_items saleData)) = 0
      then (Inl ItemsRequired, st)
      else if \<not> truthy_str (r_paymentMethod saleData)
      then (Inl PaymentMethodRequired, st)
      else
        (let items = elements (r_items saleData);
             newSaleId = next_id (map s_id (sales st));
             total = sale_total items;
             newSale = \<lparr>s_id = newSaleId,
                        s_tenantId = u_tenantId user,
                        s_userId = u_id user,
                        s_items = items,
                        s_total = total,
                        s_paymentMethod = r_paymentMethod saleData,
                        s_cashReceived = num_or_null (r_cashReceived saleData),
                        s_cashChange = num_or_null (r_cashChange saleData),
                        s_status = ''completed'',
                        s_notes = str_or (r_notes saleData) [],
                        s_createdAt = now_iso rt\<rparr>;
             products' = foldl (adjust_stock rt (u_tenantId user)) (products st) items
         in (Inr newSale, st\<lparr>sales := sales st @ [newSale], products := products'\<rparr>)))"

section \<open>Catalog manager\<close>

text \<open>
  \<open>String.prototype.toLowerCase\<close> on the ASCII letters; other characters are left as they
  are. \<open>includes_str s t\<close> is \<open>s.includes(t)\<close>: \<open>t\<close> occurs in \<open>s\<close> as a contiguous run.
\<close>

definition lower_char :: "char \<Rightarrow> char" where
  "lower_char c =
     (let n = (of_char c :: nat) in if 65 \<le> n \<and> n \<le> 90 then char_of (n + 32) else c)"

definition toLowerCase :: "string \<Rightarrow> string" where
  "toLowerCase s = map lower_char s"

fun includes_str :: "string \<Rightarrow> string \<Rightarrow> bool" where
  "includes_str [] t = (t = [])"
| "includes_str (c # s) t = (prefix t (c # s) \<or> includes_str s t)"

text \<open>\<open>GET /api/products\<close>.\<close>

definition get_products :: "user_claims \<Rightarrow> store \<Rightarrow> product list" where
  "get_products user st = filter (\<lambda>p. p_tenantId p = u_tenantId user) (products st)"

text \<open>
  \<open>GET /api/products/search\<close>. The predicate of the free-text filter reads
  \<open>p.barcode.includes\<close> only when the name does not match; on a product without a barcode
  that read throws, and the handler's \<open>catch\<close> answers with status 500.
\<close>

definition query_match :: "string \<Rightarrow> product \<Rightarrow> error + bool" where
  "query_match searchTerm p =
     (if includes_str (toLowerCase (p_name p)) searchTerm then Inr True
      else (case p_barcode p of
              None \<Rightarrow> Inl InternalError
            | Some b \<Rightarrow> Inr (includes_str b searchTerm)))"

fun filter_try :: "('a \<Rightarrow> error + bool) \<Rightarrow> 'a list \<Rightarrow> error + 'a list" where
  "filter_try f [] = Inr []"
| "filter_try f (x # xs) =
     (case f x of
        Inl e \<Rightarrow> Inl e
      | Inr b \<Rightarrow>
          (case filter_try f xs of
             Inl e \<Rightarrow> Inl e
           | Inr ys \<Rightarrow> Inr (if b then x # ys else ys)))"

definition search_products ::
  "user_claims \<Rightarrow> string option \<Rightarrow> string option \<Rightarrow> store \<Rightarrow> error + product list" where
  "search_products user q barcode st =
     (let tenantProducts = filter (\<lambda>p. p_tenantId p = u_tenantId user) (products st);
          result =
            (if truthy_str barcode
             then Inr (filter (\<lambda>p. p_barcode p = barcode) tenantProducts)
             else (case q of
                     Some qs \<Rightarrow>
                       if qs \<noteq> []
                       then filter_try (query_match (toLowerCase qs)) tenantProducts
                       else Inr tenantProducts
                   | None \<Rightarrow> Inr tenantProducts))
      in (case result of Inl e \<Rightarrow> Inl e | Inr r \<Rightarrow> Inr (take 50 r)))"

text \<open>
  The body of \<open>POST /api/products\<close> and of \<open>PUT /api/products/:id\<close>: a JSON object in which
  every key may be absent.
\<close>

record product_body =
  b_id :: "number option"
  b_tenantId :: "number option"
  b_barcode :: "string option"
  b_name :: "string option"
  b_price :: "number option"
  b_cost :: "number option"
  b_stock :: "number option"
  b_category :: "string option"
  b_lowStockAlert :: "number option"
  b_createdAt :: "string option"

text \<open>
  One key of an object literal \<open>{key: server, ...body}\<close>: the spread comes after the key,
  so a value of the body replaces the one written before it.
\<close>

definition spread_over :: "'a \<Rightarrow> 'a option \<Rightarrow> 'a" where
  "spread_over server v = (case v of Some b \<Rightarrow> b | None \<Rightarrow> server)"

text \<open>
  \<open>POST /api/products\<close>. In \<open>newProduct\<close> the keys \<open>id\<close> and \<open>tenantId\<close> are written
  before \<open>...product\<close>, and \<open>createdAt\<close> and \<open>updatedAt\<close> after it. Past the validation
  the name, the price and the stock of the body are present.
\<close>

definition post_products ::
  "runtime \<Rightarrow> user_claims \<Rightarrow> product_body \<Rightarrow> store \<Rightarrow> (error + product) \<times> store" where
  "post_products rt user body st =
     (if \<not> truthy_str (b_name body) \<or> \<not> truthy_num (b_price body) \<or> b_stock body = None
      then (Inl ProductFieldsRequired, st)
      else
        (let newId = next_id (map p_id (products st));
             newProduct = \<lparr>p_id = spread_over newId (b_id body),
                            p_tenantId = spread_over (u_tenantId user) (b_tenantId body),
                            p_barcode = b_barcode body,
                            p_name = the (b_name body),
                            p_price = the (b_price body),
                            p_cost = b_cost body,
                            p_stock = the (b_stock body),
                            p_category = b_category body,
                            p_lowStockAlert = b_lowStockAlert body,
                            p_createdAt = Some (now_iso rt),
                            p_updatedAt = Some (now_iso rt)\<rparr>
         in (Inr newProduct, st\<lparr>products := products st @ [newProduct]\<rparr>)))"

text \<open>
  \<open>PUT /api/products/:id\<close>: \<open>{...products[index], ...updates, updatedAt: now}\<close>.
\<close>

definition merge_product :: "product \<Rightarrow> product_body \<Rightarrow> product" where
  "merge_product p updates =
     \<lparr>p_id = spread_over (p_id p) (b_id updates),
      p_tenantId = spread_over (p_tenantId p) (b_tenantId updates),
      p_barcode = (case b_barcode updates of Some b \<Rightarrow> Some b | None \<Rightarrow> p_barcode p),
      p_name = spread_over (p_name p) (b_name updates),
      p_price = spread_over (p_price p) (b_price updates),
      p_cost = (case b_cost updates of Some c \<Rightarrow> Some c | None \<Rightarrow> p_cost p),
      p_stock = spread_over (p_stock p) (b_stock updates),
      p_category = (case b_category updates of Some c \<Rightarrow> Some c | None \<Rightarrow> p_category p),
      p_lowStockAlert =
        (case b_lowStockAlert updates of Some a \<Rightarrow> Some a | None \<Rightarrow> p_lowStockAlert p),
      p_createdAt = (case b_createdAt updates of Some c \<Rightarrow> Some c | None \<Rightarrow> p_createdAt p),
      p_updatedAt = p_updatedAt p\<rparr>"

definition put_products ::
  "runtime \<Rightarrow> user_claims \<Rightarrow> number \<Rightarrow> product_body \<Rightarrow> store \<Rightarrow> (error + product) \<times> store" where
  "put_products rt user productId updates st =
     (case findIndex (\<lambda>p. p_id p = productId \<and> p_tenantId p = u_tenantId user) (products st) of
        None \<Rightarrow> (Inl ProductNotFound, st)
      | Some index \<Rightarrow>
          (let merged = (merge_product (products st ! index) updates)
                          \<lparr>p_updatedAt := Some (now_iso rt)\<rparr>
           in (Inr merged, st\<lparr>products := (products st)[index := merged]\<rparr>)))"

section \<open>Reporting engine\<close>

text \<open>\<open>new Date().toISOString().split('T')[0]\<close>: the date part of the clock.\<close>

definition today :: "runtime \<Rightarrow> string" where
  "today rt = takeWhile (\<lambda>c. c \<noteq> CHR ''T'') (now_iso rt)"

text \<open>\<open>GET /api/sales/today\<close>; \<open>prefix t s\<close> is \<open>s.startsWith(t)\<close>.\<close>

definition sales_today :: "runtime \<Rightarrow> user_claims \<Rightarrow> store \<Rightarrow> sale list" where
  "sales_today rt user st =
     filter (\<lambda>s. s_tenantId s = u_tenantId user \<and> prefix (today rt) (s_createdAt s)
                 \<and> s_status s = ''completed'') (sales st)"

text \<open>
  The comparison \<open>a <= b\<close> of two strings: lexicographic on the character codes. The
  handler's \<open>a >= b\<close> is \<open>str_le b a\<close>.
\<close>

fun str_le :: "string \<Rightarrow> string \<Rightarrow> bool" where
  "str_le [] t = True"
| "str_le (c # s) [] = False"
| "str_le (c # s) (d # t) = ((of_char c :: nat) < of_char d \<or> (c = d \<and> str_le s t))"

text \<open>The sales that \<open>GET /api/sales/stats\<close> aggregates.\<close>

definition filteredSales :: "user_claims \<Rightarrow> string option \<Rightarrow> string option \<Rightarrow> store \<Rightarrow> sale list" where
  "filteredSales user startDate endDate st =
     (let filtered0 = filter (\<lambda>s. s_tenantId s = u_tenantId user \<and> s_status s = ''completed'')
                        (sales st);
          filtered1 = (case startDate of
                         Some d \<Rightarrow>
                           if d \<noteq> [] then filter (\<lambda>s. str_le d (s_createdAt s)) filtered0
                           else filtered0
                       | None \<Rightarrow> filtered0)
      in (case endDate of
            Some d \<Rightarrow>
              if d \<noteq> []
              then filter (\<lambda>s. str_le (s_createdAt s) (d @ ''T23:59:59.999Z'')) filtered1
              else filtered1
          | None \<Rightarrow> filtered1))"













definition tenantSales :: "user_claims \<Rightarrow> store \<Rightarrow> sale list" where
  "tenantSales user st =
     filter (\<lambda>s. s_tenantId s = u_tenantId user \<and> s_status s = ''completed'') (sales st)"

definition todaySales :: "runtime \<Rightarrow> user_claims \<Rightarrow> store \<Rightarrow> sale list" where
  "todaySales rt user st = filter (\<lambda>s. prefix (today rt) (s_createdAt s)) (tenantSales user st)"





section \<open>Concrete data for the examples\<close>

text \<open>
  A runtime whose clock reads 2024-05-02T12:00:00.000Z; \<open>ex_date_ms\<close> gives the value of
  \<open>new Date(s)\<close> in milliseconds for the timestamps the examples use.
\<close>

definition ex_date_ms :: "string \<Rightarrow> number" where
  "ex_date_ms s =
     (if s = ''2024-04-01T00:00:00.000Z'' then 1711929600000
      else if s = ''2024-05-01T09:30:00.000Z'' then 1714555800000
      else if s = ''2024-05-02T12:00:00.000Z'' then 1714651200000
      else if s = ''2024-06-01T00:00:00.000Z'' then 1717200000000
      else 0)"

text \<open>The decimal text of the product identifiers that the examples use.\<close>

definition ex_num_str :: "number \<Rightarrow> string" where
  "ex_num_str n = (if n = 1 then ''1'' else if n = 2 then ''2'' else if n = 99 then ''99'' else [])"

definition ex_rt :: runtime where
  "ex_rt = \<lparr>now_iso = ''2024-05-02T12:00:00.000Z'', now_ms = 1714651200000,
            date_ms = ex_date_ms, num_str = ex_num_str\<rparr>"

definition ex_tenant :: tenant where
  "ex_tenant = \<lparr>t_id = 1, t_name = ''Loja Demo PDV SaaS'', t_plan = ''basic'',
                t_subscriptionStatus = ''active'', t_trialEnds = ''2024-06-01T00:00:00.000Z'',
                t_isActive = True\<rparr>"

definition ex_user :: user_claims where
  "ex_user = \<lparr>u_id = 1, u_email = ''admin@pdv.com'', u_role = ''admin'', u_tenantId = 1\<rparr>"

definition ex_cola :: product where
  "ex_cola = \<lparr>p_id = 1, p_tenantId = 1, p_barcode = Some ''7891000142007'',
              p_name = ''Coca-Cola 2L'', p_price = 999 / 100, p_cost = Some (13 / 2),
              p_stock = 3, p_category = Some ''bebidas'', p_lowStockAlert = Some 5,
              p_createdAt = Some ''2024-04-01T00:00:00.000Z'', p_updatedAt = None\<rparr>"









text \<open>A second tenant, on a trial that ended a month before the clock's date, and its user.\<close>

definition ex_tenant_trial :: tenant where
  "ex_tenant_trial = \<lparr>t_id = 2, t_name = ''Loja X'', t_plan = ''trial'',
                      t_subscriptionStatus = ''trial'', t_trialEnds = ''2024-04-01T00:00:00.000Z'',
                      t_isActive = True\<rparr>"

definition ex_user2 :: user_claims where
  "ex_user2 = \<lparr>u_id = 2, u_email = ''dono@lojax.com'', u_role = ''admin'', u_tenantId = 2\<rparr>"

text \<open>A third tenant with an active subscription, and its user.\<close>

definition ex_tenant3 :: tenant where
  "ex_tenant3 = \<lparr>t_id = 3, t_name = ''Mercado B'', t_plan = ''basic'',
                 t_subscriptionStatus = ''active'', t_trialEnds = ''2024-04-01T00:00:00.000Z'',
                 t_isActive = True\<rparr>"

definition ex_user3 :: user_claims where
  "ex_user3 = \<lparr>u_id = 3, u_email = ''caixa@mercadob.com'', u_role = ''admin'', u_tenantId = 3\<rparr>"

definition ex_store3 :: store where
  "ex_store3 = \<lparr>products = [ex_cola], sales = [], tenants = [ex_tenant, ex_tenant3]\<rparr>"

text \<open>The body \<open>{name: "Agua", price: 2.5, stock: 10}\<close>, and the same body with \<open>tenantId: 3\<close>.\<close>

definition ex_body :: product_body where
  "ex_body = \<lparr>b_id = None, b_tenantId = None, b_barcode = None, b_name = Some ''Agua'',
              b_price = Some (5 / 2), b_cost = None, b_stock = Some 10, b_category = None,
              b_lowStockAlert = None, b_createdAt = None\<rparr>"

definition ex_body_cross :: product_body where
  "ex_body_cross = ex_body\<lparr>b_tenantId := Some 3\<rparr>"

text \<open>A product of tenant 1 whose barcode has capital letters.\<close>

definition ex_screw :: product where
  "ex_screw = \<lparr>p_id = 2, p_tenantId = 1, p_barcode = Some ''ABC123'',
               p_name = ''Parafuso'', p_price = 1 / 2, p_cost = None,
               p_stock = 100, p_category = None, p_lowStockAlert = None,
               p_createdAt = Some ''2024-04-01T00:00:00.000Z'', p_updatedAt = None\<rparr>"

definition ex_store_screw :: store where
  "ex_store_screw = \<lparr>products = [ex_cola, ex_screw], sales = [], tenants = [ex_tenant]\<rparr>"



text \<open>An update that carries nothing but \<open>tenantId: 3\<close>.\<close>

definition ex_updates_cross :: product_body where
  "ex_updates_cross = \<lparr>b_id = None, b_tenantId = Some 3, b_barcode = None, b_name = None,
                       b_price = None, b_cost = None, b_stock = None, b_category = None,
                       b_lowStockAlert = None, b_createdAt = None\<rparr>"

text \<open>A product of tenant 1 that was created without a barcode.\<close>

definition ex_agua :: product where
  "ex_agua = \<lparr>p_id = 2, p_tenantId = 1, p_barcode = None, p_name = ''Agua'',
              p_price = 5 / 2, p_cost = None, p_stock = 10, p_category = None,
              p_lowStockAlert = None, p_createdAt = Some ''2024-05-02T12:00:00.000Z'',
              p_updatedAt = Some ''2024-05-02T12:00:00.000Z''\<rparr>"

definition ex_store_agua :: store where
  "ex_store_agua = \<lparr>products = [ex_cola, ex_agua], sales = [], tenants = [ex_tenant]\<rparr>"

section \<open>Properties of the sale processor\<close>


lemma findIndex_None: "findIndex P xs = None \<longleftrightarrow> (\<forall>x\<in>set xs. \<not> P x)"
  by (induction xs) (auto split: option.splits)













subsection \<open>Stock is never negative\<close>








subsection \<open>The total of a sale\<close>





subsection \<open>Validation of a sale request\<close>




subsection \<open>Line items without a matching product\<close>



section \<open>Properties of the tenant gate\<close>

text \<open>
  Claim C6. \<open>validateTenant\<close> refuses a request exactly when no tenant has the identifier
  of the token, or the tenant found has its active flag off, or its subscription status is
  not \<open>active\<close> and its trial expiry is before the current time. Every refusal has status
  403. Otherwise the request proceeds with the tenant found, and a tenant-scoped route runs
  its handler.
\<close>

theorem tenant_gate_forbidden_iff:
  "((\<exists>e. validateTenant rt ts user = Inl e)
     \<longleftrightarrow> ((\<forall>t\<in>set ts. t_id t \<noteq> u_tenantId user)
          \<or> (\<exists>t. find (\<lambda>t. t_id t = u_tenantId user) ts = Some t
                \<and> (\<not> t_isActive t
                     \<or> (t_subscriptionStatus t \<noteq> ''active'' \<and> date_ms rt (t_trialEnds t) < now_ms rt)))))
   \<and> (\<forall>e. validateTenant rt ts user = Inl e \<longrightarrow> status e = 403)
   \<and> ((\<forall>e. validateTenant rt ts user \<noteq> Inl e)
        \<longrightarrow> (\<exists>t. validateTenant rt ts user = Inr t \<and> t \<in> set ts \<and> t_id t = u_tenantId user
                  \<and> find (\<lambda>t. t_id t = u_tenantId user) ts = Some t))
   \<and> (\<forall>st handler. tenant_scoped rt user st handler
         = (case validateTenant rt (tenants st) user of Inl e \<Rightarrow> (Inl e, st) | Inr t \<Rightarrow> handler st))"
proof (cases "find (\<lambda>t. t_id t = u_tenantId user) ts")
  case None
  then have n: "\<forall>t\<in>set ts. t_id t \<noteq> u_tenantId user"
    by (auto simp: find_None_iff)
  have v: "validateTenant rt ts user = Inl AccountInactive"
    using None by (simp add: validateTenant_def)
  show ?thesis using n by (simp add: v tenant_scoped_def)
next
  case (Some t)
  then have m: "t \<in> set ts" "t_id t = u_tenantId user"
    by (auto simp: find_Some_iff)
  then have ex: "\<not> (\<forall>t\<in>set ts. t_id t \<noteq> u_tenantId user)" by blast
  have v: "validateTenant rt ts user =
      (if \<not> t_isActive t then Inl AccountInactive
       else if t_subscriptionStatus t \<noteq> ''active'' \<and> date_ms rt (t_trialEnds t) < now_ms rt
       then Inl SubscriptionExpired else Inr t)"
    using Some by (simp add: validateTenant_def)
  show ?thesis unfolding v using m ex Some by (simp add: tenant_scoped_def v)
qed

text \<open>
  The tenant with an active subscription passes the gate; the tenant whose trial ended on
  2024-04-01 is refused with status 403 on 2024-05-02.
\<close>

theorem tenant_gate_forbidden_iff_witness:
  "validateTenant ex_rt [ex_tenant, ex_tenant_trial] ex_user = Inr ex_tenant
   \<and> (\<exists>e. validateTenant ex_rt [ex_tenant, ex_tenant_trial] ex_user2 = Inl e \<and> status e = 403)"
proof -
  let ?ts = "[ex_tenant, ex_tenant_trial]"
  have f1: "find (\<lambda>t. t_id t = u_tenantId ex_user) ?ts = Some ex_tenant"
    by (simp add: ex_tenant_def ex_user_def)
  have f2: "find (\<lambda>t. t_id t = u_tenantId ex_user2) ?ts = Some ex_tenant_trial"
    by (simp add: ex_tenant_def ex_tenant_trial_def ex_user2_def)
  have ok: "t_isActive ex_tenant \<and> t_subscriptionStatus ex_tenant = ''active''"
    by (simp add: ex_tenant_def)
  have late: "t_subscriptionStatus ex_tenant_trial \<noteq> ''active''
      \<and> date_ms ex_rt (t_trialEnds ex_tenant_trial) < now_ms ex_rt"
    by (simp add: ex_tenant_trial_def ex_rt_def ex_date_ms_def)
  have some: "\<not> (\<forall>t\<in>set ?ts. t_id t \<noteq> u_tenantId ex_user)"
    by (simp add: ex_tenant_def ex_user_def)
  from tenant_gate_forbidden_iff[of ex_rt ?ts ex_user] f1 ok some
  have 1: "validateTenant ex_rt ?ts ex_user = Inr ex_tenant" by auto
  from tenant_gate_forbidden_iff[of ex_rt ?ts ex_user2] f2 late
  have 2: "\<exists>e. validateTenant ex_rt ?ts ex_user2 = Inl e \<and> status e = 403" by blast
  from 1 2 show ?thesis by blast
qed

section \<open>Properties of the catalog manager\<close>

lemma includes_str_sublist: "includes_str s t \<longleftrightarrow> sublist t s"
  by (induction s) (auto simp: sublist_Cons_right)






text \<open>
  Claim C3 at a failing input. Tenants 1 and 3 both pass the gate. A user of tenant 1 creates
  a product with the body \<open>{name: "Agua", price: 2.5, stock: 10, tenantId: 3}\<close>; the product
  list of tenant 3, empty before, then holds that product.
\<close>

theorem cross_tenant_product_listed:
  "validateTenant ex_rt (tenants ex_store3) ex_user = Inr ex_tenant
   \<and> validateTenant ex_rt (tenants ex_store3) ex_user3 = Inr ex_tenant3
   \<and> u_tenantId ex_user = 1 \<and> u_tenantId ex_user3 = 3
   \<and> get_products ex_user3 ex_store3 = []
   \<and> get_products ex_user3
        (snd (tenant_scoped ex_rt ex_user ex_store3 (post_products ex_rt ex_user ex_body_cross)))
      = [\<lparr>p_id = 2, p_tenantId = 3, p_barcode = None, p_name = ''Agua'',
           p_price = 5 / 2, p_cost = None, p_stock = 10, p_category = None,
           p_lowStockAlert = None,
           p_createdAt = Some ''2024-05-02T12:00:00.000Z'',
           p_updatedAt = Some ''2024-05-02T12:00:00.000Z''\<rparr>]"
  by (simp add: validateTenant_def tenant_scoped_def post_products_def get_products_def
        ex_store3_def ex_tenant_def ex_tenant3_def ex_user_def ex_user3_def ex_rt_def
        ex_body_cross_def ex_body_def ex_cola_def spread_over_def Let_def)

text \<open>
  The body of that request passes the validation of the handler, and the product that
  tenant 3 is shown is the one named in it.
\<close>

theorem cross_tenant_product_listed_witness:
  "truthy_str (b_name ex_body_cross) \<and> truthy_num (b_price ex_body_cross)
   \<and> b_stock ex_body_cross \<noteq> None
   \<and> map p_name (get_products ex_user3
        (snd (tenant_scoped ex_rt ex_user ex_store3 (post_products ex_rt ex_user ex_body_cross))))
      = [''Agua'']"
proof -
  have v: "truthy_str (b_name ex_body_cross) \<and> truthy_num (b_price ex_body_cross)
      \<and> b_stock ex_body_cross \<noteq> None"
    by (simp add: ex_body_cross_def ex_body_def)
  from cross_tenant_product_listed
  have "map p_name (get_products ex_user3
        (snd (tenant_scoped ex_rt ex_user ex_store3 (post_products ex_rt ex_user ex_body_cross))))
      = [''Agua'']" by simp
  with v show ?thesis by blast
qed

text \<open>What does hold of the product list: it has products of the requesting tenant only.\<close>

lemma get_products_scoped: "p \<in> set (get_products user st) \<Longrightarrow> p_tenantId p = u_tenantId user"
  by (simp add: get_products_def)

text \<open>
  Sales are written with the tenant of the session token, and every sales report filters by
  it: a sale made by one tenant is in no report of another tenant, whatever the store holds
  later.
\<close>

lemma post_sales_tenant:
  "fst (post_sales rt user saleData st) = Inr newSale \<Longrightarrow> s_tenantId newSale = u_tenantId user"
  by (auto simp: post_sales_def Let_def split: if_splits)

lemma sales_reports_scoped:
  "s \<in> set (sales_today rt user st) \<union> set (filteredSales user startDate endDate st)
        \<union> set (tenantSales user st) \<union> set (todaySales rt user st)
   \<Longrightarrow> s_tenantId s = u_tenantId user"
  by (auto simp: sales_today_def filteredSales_def tenantSales_def todaySales_def Let_def
           split: option.splits if_splits)

lemma new_sale_isolated:
  assumes "fst (post_sales rt user saleData st) = Inr newSale"
    and "u_tenantId other \<noteq> u_tenantId user"
  shows "newSale \<notin> set (sales_today rt' other st') \<union> set (filteredSales other startDate endDate st')
        \<union> set (tenantSales other st') \<union> set (todaySales rt' other st')"
  using post_sales_tenant[OF assms(1)] assms(2) sales_reports_scoped by metis

text \<open>
  An update reaches only a product of the requesting tenant; but the body of an update is
  spread over the product in the same way, and \<open>tenantId: 3\<close> sent by tenant 1 moves its
  product 1 into the product list of tenant 3.
\<close>

lemma put_products_foreign:
  "\<forall>p\<in>set (products st). \<not> (p_id p = productId \<and> p_tenantId p = u_tenantId user)
   \<Longrightarrow> put_products rt user productId updates st = (Inl ProductNotFound, st)"
  using findIndex_None[of "\<lambda>p. p_id p = productId \<and> p_tenantId p = u_tenantId user" "products st"]
  by (simp add: put_products_def)

lemma put_products_moves_tenant:
  "get_products ex_user3 ex_store3 = []
   \<and> map p_id (get_products ex_user3 (snd (put_products ex_rt ex_user 1 ex_updates_cross ex_store3))) = [1]"
  by (simp add: put_products_def get_products_def merge_product_def spread_over_def Let_def
        ex_store3_def ex_cola_def ex_user_def ex_user3_def ex_updates_cross_def)

text \<open>
  Claim C7 at a failing input. The catalog of tenant 1 has a product named \<open>Parafuso\<close> with
  barcode \<open>ABC123\<close>. The search for \<open>q = ABC123\<close> lowercases the query but not the
  barcode, and answers with the empty list.
\<close>

theorem search_uppercase_barcode_missed:
  "search_products ex_user (Some ''ABC123'') None ex_store_screw = Inr []
   \<and> ex_screw \<in> set (get_products ex_user ex_store_screw)
   \<and> p_barcode ex_screw = Some ''ABC123''"
  by (simp add: search_products_def get_products_def ex_store_screw_def ex_cola_def ex_screw_def ex_user_def
        query_match_def toLowerCase_def lower_char_def char_of_def)

text \<open>
  The parts of the search that hold: an answer has at most 50 products, and a non-empty
  barcode parameter selects the products of the tenant whose barcode is equal to it, whatever
  the query.
\<close>

lemma search_products_cap:
  "search_products user q barcode st = Inr r \<Longrightarrow> length r \<le> 50"
  by (auto simp: search_products_def Let_def split: sum.splits)

lemma search_products_barcode:
  "b \<noteq> [] \<Longrightarrow> search_products user q (Some b) st
     = Inr (take 50 (filter (\<lambda>p. p_barcode p = Some b) (get_products user st)))"
  by (simp add: search_products_def get_products_def)

text \<open>
  A product created without a barcode makes a free-text search fail with status 500 as soon
  as its name does not contain the query, even when another product matches.
\<close>

lemma search_without_barcode_fails:
  "search_products ex_user (Some ''cola'') None ex_store_agua = Inl InternalError
   \<and> status InternalError = 500"
  by (simp add: search_products_def query_match_def toLowerCase_def lower_char_def char_of_def
        ex_store_agua_def ex_cola_def ex_agua_def ex_user_def)


section \<open>Properties of the reporting engine\<close>

subsection \<open>Top products\<close>
















subsection \<open>Dashboard\<close>








end
